theory Spec2Isabelle
  imports Main "HOL-Library.Word" "HOL-Library.Char_ord" "HOL-Library.List_Lexorder"
begin

unbundle bit_operations_syntax

chapter \<open>VoteLedger: the hash-linked vote ledger and its fraud scan\<close>

text \<open>
  The three source files (\<^verbatim>\<open>app.py\<close>, \<^verbatim>\<open>app2.py\<close>, \<^verbatim>\<open>prototype.py\<close>) carry the
  same two classes \<^verbatim>\<open>Block\<close> and \<^verbatim>\<open>Blockchain\<close>, line for line, and differ in the
  user-interface code around them. The classes are embedded once; the interface code
  that the properties below depend on is embedded per file.

  Conventions of the embedding.
  \<^item> A Python \<^verbatim>\<open>str\<close> is a \<^typ>\<open>string\<close> whose characters are the code points below 256.
  \<^item> A Python \<^verbatim>\<open>float\<close> (every one in these files is a reading of \<^verbatim>\<open>time.time()\<close>) is
    carried as its \<^verbatim>\<open>repr\<close>, the text that \<^verbatim>\<open>json.dumps\<close> and an f-string write for it.
    The clock is an input: every operation that reads it takes the reading as an argument.
  \<^item> A Python \<^verbatim>\<open>int\<close> that is a length or a counter is a \<^typ>\<open>nat\<close>.
  \<^item> A \<^verbatim>\<open>dict\<close> whose iteration order is observed is an association list in insertion
    order; the tally, which is only looked up, is a map.
\<close>

section \<open>Library functions the ledger calls\<close>

subsection \<open>\<^verbatim>\<open>hashlib.sha256(...).hexdigest()\<close>\<close>

type_synonym byte = "8 word"
type_synonym w32 = "32 word"
type_synonym sha_state = "w32 \<times> w32 \<times> w32 \<times> w32 \<times> w32 \<times> w32 \<times> w32 \<times> w32"

definition rotr :: "nat \<Rightarrow> w32 \<Rightarrow> w32" where
  "rotr n x = (drop_bit n x) OR (push_bit (32 - n) x)"

definition Ch :: "w32 \<Rightarrow> w32 \<Rightarrow> w32 \<Rightarrow> w32" where
  "Ch x y z = (x AND y) XOR (NOT x AND z)"

definition Maj :: "w32 \<Rightarrow> w32 \<Rightarrow> w32 \<Rightarrow> w32" where
  "Maj x y z = (x AND y) XOR (x AND z) XOR (y AND z)"

definition Sigma0 :: "w32 \<Rightarrow> w32" where
  "Sigma0 x = rotr 2 x XOR rotr 13 x XOR rotr 22 x"

definition Sigma1 :: "w32 \<Rightarrow> w32" where
  "Sigma1 x = rotr 6 x XOR rotr 11 x XOR rotr 25 x"

definition sigma0 :: "w32 \<Rightarrow> w32" where
  "sigma0 x = rotr 7 x XOR rotr 18 x XOR drop_bit 3 x"

definition sigma1 :: "w32 \<Rightarrow> w32" where
  "sigma1 x = rotr 17 x XOR rotr 19 x XOR drop_bit 10 x"

text \<open>The round constants of FIPS 180-4, section 4.2.2.\<close>

definition K256 :: "w32 list" where
  "K256 =
   [0x428A2F98, 0x71374491, 0xB5C0FBCF, 0xE9B5DBA5, 0x3956C25B, 0x59F111F1, 0x923F82A4, 0xAB1C5ED5,
    0xD807AA98, 0x12835B01, 0x243185BE, 0x550C7DC3, 0x72BE5D74, 0x80DEB1FE, 0x9BDC06A7, 0xC19BF174,
    0xE49B69C1, 0xEFBE4786, 0x0FC19DC6, 0x240CA1CC, 0x2DE92C6F, 0x4A7484AA, 0x5CB0A9DC, 0x76F988DA,
    0x983E5152, 0xA831C66D, 0xB00327C8, 0xBF597FC7, 0xC6E00BF3, 0xD5A79147, 0x06CA6351, 0x14292967,
    0x27B70A85, 0x2E1B2138, 0x4D2C6DFC, 0x53380D13, 0x650A7354, 0x766A0ABB, 0x81C2C92E, 0x92722C85,
    0xA2BFE8A1, 0xA81A664B, 0xC24B8B70, 0xC76C51A3, 0xD192E819, 0xD6990624, 0xF40E3585, 0x106AA070,
    0x19A4C116, 0x1E376C08, 0x2748774C, 0x34B0BCB5, 0x391C0CB3, 0x4ED8AA4A, 0x5B9CCA4F, 0x682E6FF3,
    0x748F82EE, 0x78A5636F, 0x84C87814, 0x8CC70208, 0x90BEFFFA, 0xA4506CEB, 0xBEF9A3F7, 0xC67178F2]"

definition H256 :: sha_state where
  "H256 = (0x6a09e667, 0xbb67ae85, 0x3c6ef372, 0xa54ff53a,
           0x510e527f, 0x9b05688c, 0x1f83d9ab, 0x5be0cd19)"

definition be64 :: "64 word \<Rightarrow> byte list" where
  "be64 n = map (\<lambda>i. ucast (drop_bit (8 * i) n)) [7, 6, 5, 4, 3, 2, 1, 0]"

definition sha_pad :: "byte list \<Rightarrow> byte list" where
  "sha_pad bs =
     bs @ [0x80] @ replicate ((119 - length bs mod 64) mod 64) 0 @ be64 (word_of_nat (8 * length bs))"

fun be_words :: "byte list \<Rightarrow> w32 list" where
  "be_words (a # b # c # d # r) =
     (push_bit 24 (ucast a) OR push_bit 16 (ucast b) OR push_bit 8 (ucast c) OR ucast d) # be_words r"
| "be_words _ = []"

text \<open>The message schedule is kept as a window of sixteen words that slides by one each round.\<close>

definition next_w :: "w32 list \<Rightarrow> w32" where
  "next_w w = sigma1 (w ! 14) + w ! 9 + sigma0 (w ! 1) + w ! 0"

definition T1 :: "w32 \<Rightarrow> w32 \<Rightarrow> w32 \<Rightarrow> w32 \<Rightarrow> w32 \<Rightarrow> w32 \<Rightarrow> w32" where
  "T1 e f g h k w = h + Sigma1 e + Ch e f g + k + w"

definition T2 :: "w32 \<Rightarrow> w32 \<Rightarrow> w32 \<Rightarrow> w32" where
  "T2 a b c = Sigma0 a + Maj a b c"

fun shift_in :: "w32 \<Rightarrow> w32 \<Rightarrow> sha_state \<Rightarrow> sha_state" where
  "shift_in t1 t2 (a, b, c, d, e, f, g, h) = (t1 + t2, a, b, c, d + t1, e, f, g)"

fun sha_round :: "w32 \<Rightarrow> w32 \<Rightarrow> sha_state \<Rightarrow> sha_state" where
  "sha_round k w (a, b, c, d, e, f, g, h) =
     shift_in (T1 e f g h k w) (T2 a b c) (a, b, c, d, e, f, g, h)"

fun sha_rounds :: "w32 list \<Rightarrow> w32 list \<Rightarrow> sha_state \<Rightarrow> sha_state" where
  "sha_rounds [] w s = s"
| "sha_rounds (k # ks) w s = sha_rounds ks (tl w @ [next_w w]) (sha_round k (hd w) s)"

fun add_state :: "sha_state \<Rightarrow> sha_state \<Rightarrow> sha_state" where
  "add_state (a, b, c, d, e, f, g, h) (a', b', c', d', e', f', g', h') =
     (a + a', b + b', c + c', d + d', e + e', f + f', g + g', h + h')"

definition sha_compress :: "sha_state \<Rightarrow> w32 list \<Rightarrow> sha_state" where
  "sha_compress h w = add_state h (sha_rounds K256 w h)"

function sha_blocks :: "sha_state \<Rightarrow> w32 list \<Rightarrow> sha_state" where
  "sha_blocks h ws =
     (if ws = [] then h else sha_blocks (sha_compress h (take 16 ws)) (drop 16 ws))"
  by pat_completeness auto
termination
  by (relation "measure (\<lambda>(h, ws). length ws)") auto

declare sha_blocks.simps [simp del]

fun state_words :: "sha_state \<Rightarrow> w32 list" where
  "state_words (a, b, c, d, e, f, g, h) = [a, b, c, d, e, f, g, h]"

definition hex_digit :: "byte \<Rightarrow> char" where
  "hex_digit n = ''0123456789abcdef'' ! unat n"

definition hex_byte :: "byte \<Rightarrow> string" where
  "hex_byte b = [hex_digit (drop_bit 4 b), hex_digit (b AND 0xF)]"

definition hex_word :: "w32 \<Rightarrow> string" where
  "hex_word x = concat (map (\<lambda>i. hex_byte (ucast (drop_bit (8 * i) x))) [3, 2, 1, 0])"

definition sha256_hex :: "byte list \<Rightarrow> string" where
  "sha256_hex bs = concat (map hex_word (state_words (sha_blocks H256 (be_words (sha_pad bs)))))"

subsection \<open>\<^verbatim>\<open>str.encode()\<close> and \<^verbatim>\<open>json.dumps(..., sort_keys=True)\<close>\<close>

definition utf8_char :: "char \<Rightarrow> byte list" where
  "utf8_char c =
     (if (of_char c :: nat) < 128 then [of_char c]
      else [0xC0 OR drop_bit 6 (of_char c), 0x80 OR (of_char c AND 0x3F)])"

definition encode :: "string \<Rightarrow> byte list" where
  "encode s = concat (map utf8_char s)"

datatype pyfloat = PyFloat (float_repr: string)

datatype json =
    JInt nat
  | JFloat pyfloat
  | JStr string
  | JList "json list"
  | JDict "(string \<times> json) list"

definition digit_char :: "nat \<Rightarrow> char" where
  "digit_char n = ''0123456789'' ! n"

fun decimal :: "nat \<Rightarrow> string" where
  "decimal n = (if n < 10 then [digit_char n] else decimal (n div 10) @ [digit_char (n mod 10)])"

declare decimal.simps [simp del]

text \<open>
  With \<^verbatim>\<open>ensure_ascii\<close> (the default) every character outside the printable ASCII range,
  the quote and the backslash are escaped.
\<close>

definition json_escape_char :: "char \<Rightarrow> string" where
  "json_escape_char c =
     (if c = CHR 0x5C then [CHR 0x5C, CHR 0x5C]
      else if c = CHR 0x22 then [CHR 0x5C, CHR 0x22]
      else if c = CHR 0x08 then [CHR 0x5C, CHR ''b'']
      else if c = CHR 0x0C then [CHR 0x5C, CHR ''f'']
      else if c = CHR 0x0A then [CHR 0x5C, CHR ''n'']
      else if c = CHR 0x0D then [CHR 0x5C, CHR ''r'']
      else if c = CHR 0x09 then [CHR 0x5C, CHR ''t'']
      else if (of_char c :: nat) < 0x20 \<or> (of_char c :: nat) > 0x7E
        then [CHR 0x5C, CHR ''u'', CHR ''0'', CHR ''0''] @ hex_byte (of_char c)
      else [c])"

definition json_str :: "string \<Rightarrow> string" where
  "json_str s = [CHR 0x22] @ concat (map json_escape_char s) @ [CHR 0x22]"

fun join :: "string \<Rightarrow> string list \<Rightarrow> string" where
  "join sep [] = []"
| "join sep [x] = x"
| "join sep (x # y # ys) = x @ sep @ join sep (y # ys)"

text \<open>
  The items of a dictionary are written in the order of their keys (\<^verbatim>\<open>sort_keys=True\<close>;
  Python compares strings by code point, as the lexicographic order on \<^typ>\<open>string\<close> does).
\<close>

fun json_dumps :: "json \<Rightarrow> string" where
  "json_dumps (JInt n) = decimal n"
| "json_dumps (JFloat x) = float_repr x"
| "json_dumps (JStr s) = json_str s"
| "json_dumps (JList xs) = ''['' @ join '', '' (map json_dumps xs) @ '']''"
| "json_dumps (JDict kvs) =
     ''{'' @ join '', '' (map (\<lambda>(k, v). json_str k @ '': '' @ v)
                           (sort_key fst (map (\<lambda>(k, v). (k, json_dumps v)) kvs))) @ ''}''"

section \<open>The ledger classes\<close>

subsection \<open>\<^verbatim>\<open>class Block\<close>\<close>

text \<open>A transaction is the dictionary built in \<^verbatim>\<open>add_transaction\<close>; \<open>tx_timestamp\<close> is its key \<^verbatim>\<open>'timestamp'\<close>.\<close>

record transaction =
  voter_id :: string
  candidate :: string
  receipt_id :: string
  tx_timestamp :: pyfloat

definition tx_json :: "transaction \<Rightarrow> json" where
  "tx_json tx = JDict [(''voter_id'', JStr (voter_id tx)), (''candidate'', JStr (candidate tx)),
                       (''receipt_id'', JStr (receipt_id tx)), (''timestamp'', JFloat (tx_timestamp tx))]"

record block =
  index :: nat
  transactions :: "transaction list"
  timestamp :: pyfloat
  previous_hash :: string
  nonce :: nat
  hash :: string

text \<open>
  \<^verbatim>\<open>compute_hash\<close> serialises \<^verbatim>\<open>self.__dict__\<close>, the attributes the object has at the moment of
  the call. When \<^verbatim>\<open>__init__\<close> calls it, five attributes have been assigned and \<^verbatim>\<open>hash\<close> has not;
  on a constructed block all six are there.
\<close>

definition dict_in_init :: "nat \<Rightarrow> transaction list \<Rightarrow> pyfloat \<Rightarrow> string \<Rightarrow> (string \<times> json) list" where
  "dict_in_init idx txs ts prev =
     [(''index'', JInt idx), (''transactions'', JList (map tx_json txs)), (''timestamp'', JFloat ts),
      (''previous_hash'', JStr prev), (''nonce'', JInt 0)]"

definition block_dict :: "block \<Rightarrow> (string \<times> json) list" where
  "block_dict b =
     [(''index'', JInt (index b)), (''transactions'', JList (map tx_json (transactions b))),
      (''timestamp'', JFloat (timestamp b)), (''previous_hash'', JStr (previous_hash b)),
      (''nonce'', JInt (nonce b)), (''hash'', JStr (hash b))]"

definition block_string :: "(string \<times> json) list \<Rightarrow> string" where
  "block_string d = json_dumps (JDict d)"

definition hash_of_dict :: "(string \<times> json) list \<Rightarrow> string" where
  "hash_of_dict d = sha256_hex (encode (block_string d))"

definition compute_hash :: "block \<Rightarrow> string" where
  "compute_hash b = hash_of_dict (block_dict b)"

definition Block_init :: "nat \<Rightarrow> transaction list \<Rightarrow> pyfloat \<Rightarrow> string \<Rightarrow> block" where
  "Block_init idx txs ts prev =
     \<lparr>index = idx, transactions = txs, timestamp = ts, previous_hash = prev, nonce = 0,
      hash = hash_of_dict (dict_in_init idx txs ts prev)\<rparr>"

subsection \<open>\<^verbatim>\<open>class Blockchain\<close>\<close>

datatype py_error = IndexError | KeyError

record blockchain =
  chain :: "block list"
  pending_transactions :: "transaction list"
  voters :: "string set"

definition create_genesis_block :: "blockchain \<Rightarrow> pyfloat \<Rightarrow> blockchain" where
  "create_genesis_block bc now = bc\<lparr>chain := chain bc @ [Block_init 0 [] now ''0'']\<rparr>"

definition Blockchain_init :: "pyfloat \<Rightarrow> blockchain" where
  "Blockchain_init now =
     create_genesis_block \<lparr>chain = [], pending_transactions = [], voters = {}\<rparr> now"

text \<open>\<^verbatim>\<open>add_transaction\<close> returns \<^verbatim>\<open>False\<close> for a voter who is already in \<^verbatim>\<open>self.voters\<close>.\<close>

definition add_transaction ::
  "blockchain \<Rightarrow> string \<Rightarrow> string \<Rightarrow> string \<Rightarrow> pyfloat \<Rightarrow> bool \<times> blockchain" where
  "add_transaction bc v c r now =
     (if v \<in> voters bc then (False, bc)
      else (True, bc\<lparr>pending_transactions :=
                        pending_transactions bc @
                          [\<lparr>voter_id = v, candidate = c, receipt_id = r, tx_timestamp = now\<rparr>],
                      voters := insert v (voters bc)\<rparr>))"

text \<open>
  \<^verbatim>\<open>mine\<close> returns \<^verbatim>\<open>False\<close> when nothing is pending. \<^verbatim>\<open>self.chain[-1]\<close> raises on an empty
  chain; the block takes over the list object of the pending transactions, and the
  attribute is then bound to a fresh empty list, so no later append reaches the block.
\<close>

definition mine :: "blockchain \<Rightarrow> pyfloat \<Rightarrow> py_error + bool \<times> blockchain" where
  "mine bc now =
     (if pending_transactions bc = [] then Inr (False, bc)
      else if chain bc = [] then Inl IndexError
      else Inr (True,
             bc\<lparr>chain := chain bc @
                           [Block_init (length (chain bc)) (pending_transactions bc) now
                              (hash (last (chain bc)))],
                pending_transactions := []\<rparr>))"

definition get_all_transactions :: "blockchain \<Rightarrow> transaction list" where
  "get_all_transactions bc = foldl (\<lambda>txs b. txs @ transactions b) [] (drop 1 (chain bc))"

text \<open>\<^verbatim>\<open>results\<close> is a \<^verbatim>\<open>defaultdict(int)\<close>: a candidate not yet in it counts as 0.\<close>

definition results_get :: "(string \<rightharpoonup> nat) \<Rightarrow> string \<Rightarrow> nat" where
  "results_get res c = (case res c of None \<Rightarrow> 0 | Some n \<Rightarrow> n)"

definition get_results :: "blockchain \<Rightarrow> (string \<rightharpoonup> nat)" where
  "get_results bc =
     foldl (\<lambda>res tx. res(candidate tx \<mapsto> results_get res (candidate tx) + 1)) Map.empty
       (get_all_transactions bc)"

subsection \<open>Sequences of calls\<close>

datatype ledger_op =
    Admit string string string pyfloat
  | Seal pyfloat

fun apply_op :: "blockchain \<Rightarrow> ledger_op \<Rightarrow> py_error + bool \<times> blockchain" where
  "apply_op bc (Admit v c r now) = Inr (add_transaction bc v c r now)"
| "apply_op bc (Seal now) = mine bc now"

fun run :: "blockchain \<Rightarrow> ledger_op list \<Rightarrow> py_error + bool list \<times> blockchain" where
  "run bc [] = Inr ([], bc)"
| "run bc (x # xs) =
     (case apply_op bc x of
        Inl e \<Rightarrow> Inl e
      | Inr (ok, bc1) \<Rightarrow>
          (case run bc1 xs of
             Inl e \<Rightarrow> Inl e
           | Inr (oks, bc2) \<Rightarrow> Inr (ok # oks, bc2)))"

text \<open>The return values of the calls of \<^verbatim>\<open>add_transaction\<close> for voter \<open>v\<close>, in call order.\<close>

fun admit_results :: "string \<Rightarrow> ledger_op list \<Rightarrow> bool list \<Rightarrow> bool list" where
  "admit_results v (Admit v' c r now # xs) (ok # oks) =
     (if v' = v then ok # admit_results v xs oks else admit_results v xs oks)"
| "admit_results v (Seal now # xs) (ok # oks) = admit_results v xs oks"
| "admit_results v _ _ = []"

fun is_admit_of :: "string \<Rightarrow> ledger_op \<Rightarrow> bool" where
  "is_admit_of v (Admit v' c r now) = (v' = v)"
| "is_admit_of v (Seal now) = False"

section \<open>The interface code around the ledger\<close>

subsection \<open>Python string methods\<close>

definition lower_char :: "char \<Rightarrow> char" where
  "lower_char c =
     (let n = (of_char c :: nat)
      in if (65 \<le> n \<and> n \<le> 90) \<or> (192 \<le> n \<and> n \<le> 222 \<and> n \<noteq> 215) then char_of (n + 32) else c)"

definition lower :: "string \<Rightarrow> string" where
  "lower s = map lower_char s"

definition endswith :: "string \<Rightarrow> string \<Rightarrow> bool" where
  "endswith s suf \<longleftrightarrow> length suf \<le> length s \<and> drop (length s - length suf) s = suf"

text \<open>\<open>contains sub s\<close> is the Python test \<^verbatim>\<open>sub in s\<close>.\<close>

fun contains :: "string \<Rightarrow> string \<Rightarrow> bool" where
  "contains sub [] \<longleftrightarrow> sub = []"
| "contains sub (c # cs) \<longleftrightarrow> take (length sub) (c # cs) = sub \<or> contains sub cs"

definition py_isspace :: "char \<Rightarrow> bool" where
  "py_isspace c =
     (let n = (of_char c :: nat)
      in (9 \<le> n \<and> n \<le> 13) \<or> (28 \<le> n \<and> n \<le> 32) \<or> n = 133 \<or> n = 160)"

fun split_ws :: "string \<Rightarrow> string \<Rightarrow> string list" where
  "split_ws cur [] = (if cur = [] then [] else [cur])"
| "split_ws cur (c # cs) =
     (if py_isspace c then (if cur = [] then split_ws [] cs else cur # split_ws [] cs)
      else split_ws (cur @ [c]) cs)"

text \<open>\<^verbatim>\<open>str.split()\<close> without an argument: the maximal runs of non-blank characters.\<close>

definition split :: "string \<Rightarrow> string list" where
  "split s = split_ws [] s"

subsection \<open>The state kept between requests\<close>

text \<open>
  An entry of \<^verbatim>\<open>registered_voters\<close>. \<^verbatim>\<open>app2.py\<close> stores a fourth key, \<^verbatim>\<open>registered_at\<close>, a
  rendering of the local time that no code reads; it is left out.
\<close>

record voter_info =
  name :: string
  email :: string
  domain :: string

type_synonym registry = "(string \<times> voter_info) list"

text \<open>
  A row of \<^verbatim>\<open>votes_table\<close>, with the columns of \<^verbatim>\<open>app2.py\<close>. The table of \<^verbatim>\<open>app.py\<close> has no
  column \<^verbatim>\<open>Vote Method\<close>, and none of its code reads one.
\<close>

record vote_row =
  row_voter_id :: string
  row_name :: string
  row_email :: string
  row_domain :: string
  row_candidate :: string
  row_receipt :: string
  row_method :: string
  row_timestamp :: string

text \<open>The session state of \<^verbatim>\<open>app2.py\<close> (\<open>blockchain_st\<close> is \<^verbatim>\<open>st.session_state.blockchain\<close>).\<close>

record session =
  blockchain_st :: blockchain
  candidate_list :: "string list"
  registered_voters :: registry
  qr_vote_counts :: "(string \<times> nat) list"
  votes_table :: "vote_row list"
  qr_voters :: "string set"

subsection \<open>Casting a vote (\<^verbatim>\<open>app2.py\<close>, Manual Voting)\<close>

definition generate_receipt_id :: "string \<Rightarrow> string \<Rightarrow> pyfloat \<Rightarrow> string" where
  "generate_receipt_id v c ts = take 16 (sha256_hex (encode (v @ c @ float_repr ts)))"

text \<open>
  The handler of the Submit button. It reads the clock once (\<open>now\<close>), \<^verbatim>\<open>add_transaction\<close>
  reads it again (\<open>now'\<close>), and \<open>stamp\<close> is the rendering of \<open>now\<close> in local time. The result
  is the receipt shown to the voter, if the vote was taken. A voter id that is not a key of
  \<^verbatim>\<open>registered_voters\<close> makes the look-up of the name raise.
\<close>

definition submit_vote ::
  "session \<Rightarrow> string \<Rightarrow> string \<Rightarrow> pyfloat \<Rightarrow> pyfloat \<Rightarrow> string \<Rightarrow> py_error + string option \<times> session" where
  "submit_vote st v c now now' stamp =
     (if v \<in> voters (blockchain_st st) then Inr (None, st)
      else
        (case add_transaction (blockchain_st st) v c (generate_receipt_id v c now) now' of
           (False, bc') \<Rightarrow> Inr (None, st\<lparr>blockchain_st := bc'\<rparr>)
         | (True, bc') \<Rightarrow>
             (case map_of (registered_voters st) v of
                None \<Rightarrow> Inl KeyError
              | Some info \<Rightarrow>
                  Inr (Some (generate_receipt_id v c now),
                       st\<lparr>blockchain_st := bc',
                          votes_table := votes_table st @
                            [\<lparr>row_voter_id = v, row_name = name info, row_email = email info,
                              row_domain = domain info, row_candidate = c,
                              row_receipt = generate_receipt_id v c now, row_method = ''Manual'',
                              row_timestamp = stamp\<rparr>]\<rparr>))))"

subsection \<open>Looking a receipt up\<close>

text \<open>\<^verbatim>\<open>app.py\<close>, Vote Validator: the first sealed transaction with the receipt, or "Receipt not found."\<close>

definition vote_validator :: "blockchain \<Rightarrow> string \<Rightarrow> transaction option" where
  "vote_validator bc r = List.find (\<lambda>tx. receipt_id tx = r) (get_all_transactions bc)"

text \<open>
  \<^verbatim>\<open>app2.py\<close>, Verify Vote: the sealed transactions are searched first; on a miss, the rows
  of \<^verbatim>\<open>votes_table\<close> that a QR vote wrote.
\<close>

datatype verify_result = BlockchainVote transaction | QRVote vote_row | NotFound

definition find_receipt :: "blockchain \<Rightarrow> vote_row list \<Rightarrow> string \<Rightarrow> verify_result" where
  "find_receipt bc vt r =
     (case List.find (\<lambda>tx. receipt_id tx = r) (get_all_transactions bc) of
        Some tx \<Rightarrow> BlockchainVote tx
      | None \<Rightarrow>
          (case List.find (\<lambda>row. row_receipt row = r \<and> row_method row = ''QR'') vt of
             Some row \<Rightarrow> QRVote row
           | None \<Rightarrow> NotFound))"

text \<open>The Verify button asks for a receipt when the field is empty and looks it up otherwise.\<close>

definition verify_vote_button :: "session \<Rightarrow> string \<Rightarrow> verify_result option" where
  "verify_vote_button st r =
     (if r = [] then None else Some (find_receipt (blockchain_st st) (votes_table st) r))"

subsection \<open>The fraud scans\<close>

text \<open>
  \<^verbatim>\<open>voters_df\<close> has one row per entry of \<^verbatim>\<open>registered_voters\<close>, in insertion order, labelled
  0, 1, 2, ...; a row is kept as the entry it was made from.
\<close>

definition index_tolist :: "('a \<Rightarrow> bool) \<Rightarrow> 'a list \<Rightarrow> nat list" where
  "index_tolist P rows = filter (\<lambda>i. P (rows ! i)) [0..<length rows]"

text \<open>
  \<^verbatim>\<open>value_counts\<close> and \<^verbatim>\<open>groupby(...).size()\<close>: the distinct values with the number of their
  occurrences. pandas lists them in another order; what is collected from them is made a
  set, so the order does not reach the result.
\<close>

definition value_counts :: "'a list \<Rightarrow> ('a \<times> nat) list" where
  "value_counts xs = map (\<lambda>x. (x, length (filter (\<lambda>y. y = x) xs))) (remdups xs)"

definition duplicate_email_flags :: "registry \<Rightarrow> nat list" where
  "duplicate_email_flags reg =
     concat (map (\<lambda>(e, count). if count > 1 then index_tolist (\<lambda>row. email (snd row) = e) reg else [])
               (value_counts (map (\<lambda>row. email (snd row)) reg)))"

definition suspicious_domain_flags :: "string list \<Rightarrow> registry \<Rightarrow> nat list" where
  "suspicious_domain_flags suspicious reg =
     index_tolist (\<lambda>row. \<exists>s \<in> set suspicious. contains s (lower (domain (snd row)))) reg"

definition short_name_flags :: "registry \<Rightarrow> nat list" where
  "short_name_flags reg =
     index_tolist (\<lambda>row. length (split (name (snd row))) < 2 \<or> length (name (snd row)) < 5) reg"

text \<open>\<^verbatim>\<open>app2.py\<close>, Fraud Detection System: \<^verbatim>\<open>flagged = list(set(flagged))\<close> after the three rules.\<close>

definition flagged_app2 :: "registry \<Rightarrow> nat list" where
  "flagged_app2 reg =
     remdups (duplicate_email_flags reg
              @ suspicious_domain_flags
                  [''spam.com'', ''fake.com'', ''test.com'', ''example.com'', ''mailinator.com''] reg
              @ short_name_flags reg)"

text \<open>\<^verbatim>\<open>prototype.py\<close>, AI Fraud Detection: the first two rules, with three domains.\<close>

definition flagged_prototype :: "registry \<Rightarrow> nat list" where
  "flagged_prototype reg =
     remdups (duplicate_email_flags reg
              @ suspicious_domain_flags [''spam.com'', ''fake.com'', ''test.com''] reg)"

text \<open>\<^verbatim>\<open>voters_df.loc[flagged]\<close>: the rows with these labels; a label that is not there raises.\<close>

definition loc :: "'a list \<Rightarrow> nat list \<Rightarrow> py_error + 'a list" where
  "loc rows labels =
     (if \<forall>i \<in> set labels. i < length rows then Inr (map (\<lambda>i. rows ! i) labels) else Inl KeyError)"

definition flagged_df_app2 :: "registry \<Rightarrow> py_error + registry" where
  "flagged_df_app2 reg = loc reg (flagged_app2 reg)"

text \<open>
  \<^verbatim>\<open>app.py\<close>, fraud tab. Rule 1 reads \<^verbatim>\<open>voters_df\<close>; rule 2 reads \<^verbatim>\<open>votes_table\<close> and adds the
  row labels of that table to the same set.
\<close>

definition email_domain_flags :: "string list \<Rightarrow> registry \<Rightarrow> nat list" where
  "email_domain_flags suspicious reg =
     index_tolist (\<lambda>row. \<exists>s \<in> set suspicious. endswith (lower (email (snd row))) (''@'' @ s)) reg"

definition block_vote_flags :: "vote_row list \<Rightarrow> nat list" where
  "block_vote_flags vt =
     concat (map (\<lambda>(k, count).
                    if count > 3
                    then index_tolist (\<lambda>row. row_domain row = fst k \<and> row_candidate row = snd k) vt
                    else [])
               (value_counts (map (\<lambda>row. (row_domain row, row_candidate row)) vt)))"

definition flagged_app :: "registry \<Rightarrow> vote_row list \<Rightarrow> nat list" where
  "flagged_app reg vt =
     remdups (email_domain_flags [''spam.com'', ''fake.com'', ''test.com''] reg @ block_vote_flags vt)"

definition flagged_df_app :: "registry \<Rightarrow> vote_row list \<Rightarrow> py_error + registry" where
  "flagged_df_app reg vt =
     (if reg \<noteq> [] \<and> flagged_app reg vt \<noteq> [] then loc reg (flagged_app reg vt) else Inr [])"

subsection \<open>Removing the flagged registrations (\<^verbatim>\<open>app2.py\<close>)\<close>

text \<open>\<^verbatim>\<open>d.pop(k, None)\<close> on a dictionary kept as an association list.\<close>

definition dict_pop :: "'k \<Rightarrow> ('k \<times> 'v) list \<Rightarrow> ('k \<times> 'v) list" where
  "dict_pop k d = filter (\<lambda>kv. fst kv \<noteq> k) d"

text \<open>The loop of the Remove button over a column of voter ids.\<close>

definition remove_flagged :: "string list \<Rightarrow> session \<Rightarrow> session" where
  "remove_flagged voter_ids st =
     st\<lparr>registered_voters := foldl (\<lambda>d k. dict_pop k d) (registered_voters st) voter_ids\<rparr>"

text \<open>The button is offered when \<^verbatim>\<open>flagged_df\<close> has rows; the column is \<^verbatim>\<open>flagged_df['Voter ID']\<close>.\<close>

definition remove_flagged_button :: "session \<Rightarrow> py_error + session" where
  "remove_flagged_button st =
     (case flagged_df_app2 (registered_voters st) of
        Inl e \<Rightarrow> Inl e
      | Inr rows \<Rightarrow> Inr (remove_flagged (map fst rows) st))"


subsection \<open>Invariants of the ledger\<close>

text \<open>The chain starts with the block \<open>g\<close> and every later block names the hash stored in its predecessor.\<close>

definition chain_ok :: "block \<Rightarrow> block list \<Rightarrow> bool" where
  "chain_ok g bs \<longleftrightarrow>
     bs \<noteq> [] \<and> bs ! 0 = g \<and>
     (\<forall>i. 0 < i \<and> i < length bs \<longrightarrow> previous_hash (bs ! i) = hash (bs ! (i - 1)))"

text \<open>Every admitted voter has a transaction, pending or sealed, and the other way round.\<close>

definition voters_inv :: "blockchain \<Rightarrow> bool" where
  "voters_inv bc \<longleftrightarrow>
     chain bc \<noteq> [] \<and>
     voters bc = voter_id ` set (pending_transactions bc) \<union> voter_id ` set (get_all_transactions bc)"

subsection \<open>An example session\<close>

text \<open>
  Two registered voters whose ids are \<^verbatim>\<open>V1\<close> and \<^verbatim>\<open>V11\<close>, and two candidates named \<^verbatim>\<open>1Bob\<close> and
  \<^verbatim>\<open>Bob\<close>. Voter \<^verbatim>\<open>V1\<close> votes for \<^verbatim>\<open>1Bob\<close> and voter \<^verbatim>\<open>V11\<close> for \<^verbatim>\<open>Bob\<close>, and the handler reads
  the same clock value both times; then the block is mined.
\<close>

definition ex_session :: session where
  "ex_session =
     \<lparr>blockchain_st = Blockchain_init (PyFloat ''1700000000.5''),
      candidate_list = [''1Bob'', ''Bob''],
      registered_voters =
        [(''V1'', \<lparr>name = ''Jane Doe'', email = ''jane@acme.org'', domain = ''acme.org''\<rparr>),
         (''V11'', \<lparr>name = ''John Roe'', email = ''john@acme.org'', domain = ''acme.org''\<rparr>)],
      qr_vote_counts = [(''1Bob'', 0), (''Bob'', 0)],
      votes_table = [],
      qr_voters = {}\<rparr>"

definition ex_receipt :: string where
  "ex_receipt = generate_receipt_id ''V11'' ''Bob'' (PyFloat ''1700000100.25'')"

definition ex_session1 :: session where
  "ex_session1 =
     snd (projr (submit_vote ex_session ''V1'' ''1Bob'' (PyFloat ''1700000100.25'')
                   (PyFloat ''1700000100.5'') ''2023-11-14 22:15:00''))"

definition ex_session2 :: session where
  "ex_session2 =
     snd (projr (submit_vote ex_session1 ''V11'' ''Bob'' (PyFloat ''1700000100.25'')
                   (PyFloat ''1700000100.75'') ''2023-11-14 22:15:00''))"

definition ex_sealed :: blockchain where
  "ex_sealed = snd (projr (mine (blockchain_st ex_session2) (PyFloat ''1700000200.5'')))"

text \<open>
  For the fraud tab of \<^verbatim>\<open>app.py\<close>: ten registered voters. The last five, all of the domain
  \<^verbatim>\<open>acme.org\<close>, have voted for \<^verbatim>\<open>Alice\<close>, in the order of their registration; the first five
  have not voted. A row of \<^verbatim>\<open>votes_table\<close> takes name, email and domain from the registry entry
  of the voter, as the vote handler writes it.
\<close>

definition ex_registry :: registry where
  "ex_registry =
     [(''V0'', \<lparr>name = ''Zoe Poe'', email = ''zoe@north.org'', domain = ''north.org''\<rparr>),
      (''V1'', \<lparr>name = ''Yan Moe'', email = ''yan@south.org'', domain = ''south.org''\<rparr>),
      (''V2'', \<lparr>name = ''Xia Loe'', email = ''xia@east.org'', domain = ''east.org''\<rparr>),
      (''V3'', \<lparr>name = ''Wim Koe'', email = ''wim@west.org'', domain = ''west.org''\<rparr>),
      (''V4'', \<lparr>name = ''Uma Joe'', email = ''uma@mid.org'', domain = ''mid.org''\<rparr>),
      (''V5'', \<lparr>name = ''Ann One'', email = ''v5@acme.org'', domain = ''acme.org''\<rparr>),
      (''V6'', \<lparr>name = ''Ann Two'', email = ''v6@acme.org'', domain = ''acme.org''\<rparr>),
      (''V7'', \<lparr>name = ''Ann Three'', email = ''v7@acme.org'', domain = ''acme.org''\<rparr>),
      (''V8'', \<lparr>name = ''Ann Four'', email = ''v8@acme.org'', domain = ''acme.org''\<rparr>),
      (''V9'', \<lparr>name = ''Ann Five'', email = ''v9@acme.org'', domain = ''acme.org''\<rparr>)]"

definition ex_votes :: "vote_row list" where
  "ex_votes =
     map (\<lambda>(v, info).
            \<lparr>row_voter_id = v, row_name = name info, row_email = email info,
             row_domain = domain info, row_candidate = ''Alice'', row_receipt = ''r'' @ v,
             row_method = [], row_timestamp = ''2023-11-14 22:15:00''\<rparr>)
       (drop 5 ex_registry)"

section \<open>Facts about the ledger operations\<close>

lemma foldl_extend:
  "foldl (\<lambda>txs b. txs @ transactions b) acc bs = acc @ concat (map transactions bs)"
  by (induction bs arbitrary: acc) simp_all

lemma get_all_transactions_concat:
  "get_all_transactions bc = concat (map transactions (drop 1 (chain bc)))"
  by (simp add: get_all_transactions_def foldl_extend)

lemma results_get_foldl:
  "results_get (foldl (\<lambda>res tx. res(candidate tx \<mapsto> results_get res (candidate tx) + 1)) m txs) c =
     results_get m c + length (filter (\<lambda>tx. candidate tx = c) txs)"
  by (induction txs arbitrary: m) (auto simp: results_get_def)

lemma results_get_get_results:
  "results_get (get_results bc) c = length (filter (\<lambda>tx. candidate tx = c) (get_all_transactions bc))"
  unfolding get_results_def results_get_foldl by (simp add: results_get_def)

lemma add_transaction_chain [simp]: "chain (snd (add_transaction bc v c r now)) = chain bc"
  by (simp add: add_transaction_def)

lemma add_transaction_sealed [simp]:
  "get_all_transactions (snd (add_transaction bc v c r now)) = get_all_transactions bc"
  by (simp add: get_all_transactions_def)

lemma mine_Inr:
  assumes "chain bc \<noteq> []"
  shows "mine bc now =
           (if pending_transactions bc = [] then Inr (False, bc)
            else Inr (True,
                   bc\<lparr>chain := chain bc @
                                 [Block_init (length (chain bc)) (pending_transactions bc) now
                                    (hash (last (chain bc)))],
                      pending_transactions := []\<rparr>))"
  using assms by (simp add: mine_def)

lemma drop1_snoc: "xs \<noteq> [] \<Longrightarrow> drop (Suc 0) (xs @ ys) = drop (Suc 0) xs @ ys"
  by (cases xs) simp_all

lemma mine_sealed:
  assumes "chain bc \<noteq> []" and "mine bc now = Inr (ok, bc')"
  shows "get_all_transactions bc' = get_all_transactions bc @ pending_transactions bc"
    and "pending_transactions bc' = []" and "voters bc' = voters bc" and "chain bc' \<noteq> []"
  using assms
  by (auto simp: mine_Inr get_all_transactions_concat drop1_snoc Block_init_def
        simp del: drop_append split: if_splits)

lemma run_total:
  "chain bc \<noteq> [] \<Longrightarrow> \<exists>oks bc'. run bc ops = Inr (oks, bc') \<and> length oks = length ops \<and> chain bc' \<noteq> []"
proof (induction ops arbitrary: bc)
  case Nil
  then show ?case by simp
next
  case (Cons x xs)
  show ?case
  proof (cases x)
    case (Admit v c r now)
    have "chain (snd (add_transaction bc v c r now)) \<noteq> []"
      using Cons.prems by simp
    from Cons.IH [OF this] show ?thesis
      using Admit by (cases "add_transaction bc v c r now") auto
  next
    case (Seal now)
    obtain ok bc1 where m: "mine bc now = Inr (ok, bc1)"
      using Cons.prems by (cases "pending_transactions bc = []") (simp_all add: mine_Inr)
    then have "chain bc1 \<noteq> []"
      using Cons.prems mine_sealed(4) by blast
    from Cons.IH [OF this] show ?thesis
      using Seal m by auto
  qed
qed

lemma run_preserves:
  assumes "run bc ops = Inr (oks, bc')" and "P bc"
    and "\<And>b v c r now. P b \<Longrightarrow> P (snd (add_transaction b v c r now))"
    and "\<And>b now ok b'. P b \<Longrightarrow> mine b now = Inr (ok, b') \<Longrightarrow> P b'"
  shows "P bc'"
  using assms(1,2)
proof (induction ops arbitrary: bc oks)
  case Nil
  then show ?case by simp
next
  case (Cons x xs)
  show ?case
  proof (cases x)
    case (Admit v c r now)
    obtain ok bc1 where a: "add_transaction bc v c r now = (ok, bc1)"
      by (cases "add_transaction bc v c r now")
    then have "P bc1"
      using assms(3) [OF Cons.prems(2), of v c r now] by simp
    moreover obtain oks1 where "run bc1 xs = Inr (oks1, bc')"
      using Cons.prems(1) Admit a by (auto split: sum.splits)
    ultimately show ?thesis
      using Cons.IH by blast
  next
    case (Seal now)
    obtain ok bc1 where m: "mine bc now = Inr (ok, bc1)"
      using Cons.prems(1) Seal by (auto split: sum.splits)
    then have "P bc1"
      using assms(4) Cons.prems(2) by blast
    moreover obtain oks1 where "run bc1 xs = Inr (oks1, bc')"
      using Cons.prems(1) Seal m by (auto split: sum.splits)
    ultimately show ?thesis
      using Cons.IH by blast
  qed
qed

lemma add_transaction_voters:
  "voters (snd (add_transaction bc v c r now)) = insert v (voters bc)"
  by (auto simp: add_transaction_def)

lemma add_transaction_fst: "fst (add_transaction bc v c r now) = (v \<notin> voters bc)"
  by (simp add: add_transaction_def)

lemma admit_results_shape:
  assumes "run bc ops = Inr (oks, bc')"
  shows "admit_results v ops oks =
           take (length (filter (is_admit_of v) ops))
             ((v \<notin> voters bc) # replicate (length (filter (is_admit_of v) ops)) False)"
  using assms
proof (induction ops arbitrary: bc oks)
  case Nil
  then show ?case by simp
next
  case (Cons x xs)
  show ?case
  proof (cases x)
    case (Admit v' c r now)
    obtain ok bc1 where a: "add_transaction bc v' c r now = (ok, bc1)"
      by (cases "add_transaction bc v' c r now")
    obtain oks1 where r: "run bc1 xs = Inr (oks1, bc')" and o: "oks = ok # oks1"
      using Cons.prems Admit a by (auto split: sum.splits)
    have ok: "ok = (v' \<notin> voters bc)" and vs: "voters bc1 = insert v' (voters bc)"
      using a add_transaction_fst [of bc v' c r now] add_transaction_voters [of bc v' c r now]
      by simp_all
    show ?thesis
    proof (cases "v' = v")
      case True
      then show ?thesis
        using Cons.IH [OF r] Admit o ok vs by simp
    next
      case False
      then have "(v \<notin> voters bc1) = (v \<notin> voters bc)"
        using vs by auto
      then show ?thesis
        using Cons.IH [OF r] Admit o False by simp
    qed
  next
    case (Seal now)
    obtain ok bc1 where m: "mine bc now = Inr (ok, bc1)"
      using Cons.prems Seal by (auto split: sum.splits)
    obtain oks1 where r: "run bc1 xs = Inr (oks1, bc')" and o: "oks = ok # oks1"
      using Cons.prems Seal m by (auto split: sum.splits)
    have "voters bc1 = voters bc"
      using m by (auto simp: mine_def split: if_splits)
    then show ?thesis
      using Cons.IH [OF r] Seal o by simp
  qed
qed

lemma filter_id_take_shape:
  "length (filter id (take n (b # replicate m False))) \<le> 1"
  by (cases n) (simp_all add: take_replicate)

lemma chain_ok_snoc:
  assumes "chain_ok g bs" and "previous_hash b = hash (last bs)"
  shows "chain_ok g (bs @ [b])"
proof -
  have ne: "bs \<noteq> []" and g: "bs ! 0 = g"
    and link: "\<And>i. 0 < i \<Longrightarrow> i < length bs \<Longrightarrow> previous_hash (bs ! i) = hash (bs ! (i - 1))"
    using assms(1) by (auto simp: chain_ok_def)
  have "previous_hash ((bs @ [b]) ! i) = hash ((bs @ [b]) ! (i - 1))"
    if "0 < i" and "i < length (bs @ [b])" for i
  proof (cases "i < length bs")
    case True
    moreover from True have "i - 1 < length bs"
      by simp
    ultimately show ?thesis
      using link [OF that(1) True] by (simp add: nth_append)
  next
    case False
    then have "i = length bs"
      using that(2) by simp
    then show ?thesis
      using assms(2) ne by (simp add: nth_append last_conv_nth)
  qed
  then show ?thesis
    using ne g by (simp add: chain_ok_def nth_append)
qed

lemma chain_ok_mine:
  assumes "chain_ok g (chain bc)" and "mine bc now = Inr (ok, bc')"
  shows "chain_ok g (chain bc')"
proof -
  have "chain bc \<noteq> []"
    using assms(1) by (simp add: chain_ok_def)
  then show ?thesis
    using assms chain_ok_snoc [OF assms(1)]
    by (auto simp: mine_Inr Block_init_def split: if_splits)
qed

lemma chain_ok_init: "chain_ok (Block_init 0 [] t0 ''0'') (chain (Blockchain_init t0))"
  by (simp add: chain_ok_def Blockchain_init_def create_genesis_block_def)

lemma Blockchain_init_chain_ne: "chain (Blockchain_init t0) \<noteq> []"
  by (simp add: Blockchain_init_def create_genesis_block_def)

lemma voters_inv_init: "voters_inv (Blockchain_init t0)"
  by (simp add: voters_inv_def Blockchain_init_def create_genesis_block_def get_all_transactions_def)

lemma voters_inv_add: "voters_inv bc \<Longrightarrow> voters_inv (snd (add_transaction bc v c r now))"
  unfolding voters_inv_def add_transaction_sealed add_transaction_chain
  by (auto simp: add_transaction_def)

lemma voters_inv_mine: "voters_inv bc \<Longrightarrow> mine bc now = Inr (ok, bc') \<Longrightarrow> voters_inv bc'"
  unfolding voters_inv_def using mine_sealed [of bc now ok bc'] by auto

lemmas ledger_defs = Blockchain_init_def create_genesis_block_def add_transaction_def mine_def
  Block_init_def

section \<open>Properties of the ledger\<close>

subsection \<open>Admission\<close>

text \<open>
  \<^bold>\<open>C1.\<close> A voter id is admitted at most once. On a ledger with a chain (every constructed
  ledger has one), \<^verbatim>\<open>add_transaction\<close> for a voter id that is not in \<^verbatim>\<open>voters\<close> returns
  \<^verbatim>\<open>True\<close>, appends the transaction to the pending list and adds the id to \<^verbatim>\<open>voters\<close> at
  once; for an id that is in \<^verbatim>\<open>voters\<close> it returns \<^verbatim>\<open>False\<close> and leaves the ledger as it
  was. Over any sequence of \<^verbatim>\<open>add_transaction\<close> and \<^verbatim>\<open>mine\<close> calls, every call returns, and
  the return values of the calls for one voter id are: \<^verbatim>\<open>True\<close> for the first call exactly
  when the id was not yet admitted, and \<^verbatim>\<open>False\<close> for every later call, whether or not a
  \<^verbatim>\<open>mine\<close> has sealed the first transaction in between.
\<close>

theorem admit_succeeds_at_most_once:
  assumes "chain bc \<noteq> []"
  shows "(v \<notin> voters bc \<longrightarrow>
            add_transaction bc v c r now =
              (True, bc\<lparr>pending_transactions :=
                           pending_transactions bc @
                             [\<lparr>voter_id = v, candidate = c, receipt_id = r, tx_timestamp = now\<rparr>],
                         voters := insert v (voters bc)\<rparr>))
       \<and> (v \<in> voters bc \<longrightarrow> add_transaction bc v c r now = (False, bc))
       \<and> (\<exists>oks bc'. run bc ops = Inr (oks, bc') \<and> length oks = length ops
             \<and> admit_results v ops oks =
                 take (length (filter (is_admit_of v) ops))
                   ((v \<notin> voters bc) # replicate (length (filter (is_admit_of v) ops)) False)
             \<and> length (filter id (admit_results v ops oks)) \<le> 1)"
proof -
  obtain oks bc' where r: "run bc ops = Inr (oks, bc')" and l: "length oks = length ops"
    using run_total [OF assms, of ops] by blast
  have "length (filter id (admit_results v ops oks)) \<le> 1"
    unfolding admit_results_shape [OF r] by (rule filter_id_take_shape)
  with r l admit_results_shape [OF r, of v] show ?thesis
    by (simp add: add_transaction_def)
qed

theorem admit_succeeds_at_most_once_witness:
  "chain (Blockchain_init (PyFloat ''1700000000.5'')) \<noteq> []
   \<and> add_transaction (Blockchain_init (PyFloat ''1700000000.5'')) ''V1'' ''Alice'' ''r1''
        (PyFloat ''1700000001.5'')
      = (True, (Blockchain_init (PyFloat ''1700000000.5''))
                 \<lparr>pending_transactions :=
                    [\<lparr>voter_id = ''V1'', candidate = ''Alice'', receipt_id = ''r1'',
                      tx_timestamp = PyFloat ''1700000001.5''\<rparr>],
                  voters := {''V1''}\<rparr>)
   \<and> (\<exists>oks bc'.
         run (Blockchain_init (PyFloat ''1700000000.5''))
           [Admit ''V1'' ''Alice'' ''r1'' (PyFloat ''1700000001.5''),
            Admit ''V1'' ''Bob'' ''r2'' (PyFloat ''1700000002.5''),
            Seal (PyFloat ''1700000003.5''),
            Admit ''V1'' ''Alice'' ''r3'' (PyFloat ''1700000004.5'')] = Inr (oks, bc')
         \<and> oks = [True, False, True, False])"
  using admit_succeeds_at_most_once
    [OF Blockchain_init_chain_ne, of "''V1''" "PyFloat ''1700000000.5''" "''Alice''" "''r1''"
      "PyFloat ''1700000001.5''"
      "[Admit ''V1'' ''Alice'' ''r1'' (PyFloat ''1700000001.5''),
        Admit ''V1'' ''Bob'' ''r2'' (PyFloat ''1700000002.5''),
        Seal (PyFloat ''1700000003.5''),
        Admit ''V1'' ''Alice'' ''r3'' (PyFloat ''1700000004.5'')]"]
  by (simp add: ledger_defs)

subsection \<open>Sealing\<close>

text \<open>
  \<^bold>\<open>C2.\<close> With transactions pending, \<^verbatim>\<open>mine\<close> returns \<^verbatim>\<open>True\<close>, appends exactly one block,
  whose transaction list is the pending list in its order, and leaves the pending list
  empty; the admitted voters stay as they are. With nothing pending it returns \<^verbatim>\<open>False\<close>
  and the ledger (chain, pending list, admitted voters) is unchanged.
\<close>

theorem mine_seals_all_pending:
  assumes "chain bc \<noteq> []"
  shows "(pending_transactions bc \<noteq> [] \<longrightarrow>
            mine bc now =
              Inr (True, bc\<lparr>chain := chain bc @
                                     [Block_init (length (chain bc)) (pending_transactions bc) now
                                        (hash (last (chain bc)))],
                            pending_transactions := []\<rparr>)
            \<and> transactions (Block_init (length (chain bc)) (pending_transactions bc) now
                               (hash (last (chain bc)))) = pending_transactions bc)
       \<and> (pending_transactions bc = [] \<longrightarrow> mine bc now = Inr (False, bc))"
  using assms by (simp add: mine_Inr Block_init_def)

theorem mine_seals_all_pending_witness:
  "mine (snd (add_transaction (Blockchain_init (PyFloat ''1700000000.5'')) ''V1'' ''Alice'' ''r1''
                (PyFloat ''1700000001.5''))) (PyFloat ''1700000002.5'')
     = Inr (True,
         \<lparr>chain = [Block_init 0 [] (PyFloat ''1700000000.5'') ''0'',
                   Block_init 1
                     [\<lparr>voter_id = ''V1'', candidate = ''Alice'', receipt_id = ''r1'',
                       tx_timestamp = PyFloat ''1700000001.5''\<rparr>]
                     (PyFloat ''1700000002.5'')
                     (hash (Block_init 0 [] (PyFloat ''1700000000.5'') ''0''))],
          pending_transactions = [], voters = {''V1''}\<rparr>)
   \<and> mine (Blockchain_init (PyFloat ''1700000000.5'')) (PyFloat ''1700000002.5'')
     = Inr (False, Blockchain_init (PyFloat ''1700000000.5''))"
  using
    mine_seals_all_pending
      [of "snd (add_transaction (Blockchain_init (PyFloat ''1700000000.5'')) ''V1'' ''Alice'' ''r1''
                (PyFloat ''1700000001.5''))" "PyFloat ''1700000002.5''"]
    mine_seals_all_pending
      [OF Blockchain_init_chain_ne, of "PyFloat ''1700000000.5''" "PyFloat ''1700000002.5''"]
  by (simp add: Blockchain_init_def create_genesis_block_def add_transaction_def)

subsection \<open>Chain integrity\<close>

text \<open>
  \<^bold>\<open>C3.\<close> Chain integrity. Every sequence of \<^verbatim>\<open>add_transaction\<close> and \<^verbatim>\<open>mine\<close> calls on a
  freshly constructed ledger runs without an exception, and in the ledger it reaches the
  chain is not empty, its first block is the genesis block (index 0, no transactions,
  previous hash \<^verbatim>\<open>"0"\<close>), and every later block carries as \<^verbatim>\<open>previous_hash\<close> the \<^verbatim>\<open>hash\<close>
  stored in the block before it.
\<close>

theorem chain_integrity:
  "\<exists>oks bc. run (Blockchain_init t0) ops = Inr (oks, bc)
      \<and> chain bc \<noteq> []
      \<and> chain bc ! 0 = Block_init 0 [] t0 ''0''
      \<and> index (chain bc ! 0) = 0
      \<and> transactions (chain bc ! 0) = []
      \<and> previous_hash (chain bc ! 0) = ''0''
      \<and> (\<forall>i. 0 < i \<and> i < length (chain bc) \<longrightarrow>
             previous_hash (chain bc ! i) = hash (chain bc ! (i - 1)))"
proof -
  obtain oks bc where r: "run (Blockchain_init t0) ops = Inr (oks, bc)"
    using run_total [OF Blockchain_init_chain_ne, of t0 ops] by blast
  have "chain_ok (Block_init 0 [] t0 ''0'') (chain bc)"
    by (rule run_preserves [OF r, where P = "\<lambda>b. chain_ok (Block_init 0 [] t0 ''0'') (chain b)"])
      (simp_all add: chain_ok_init chain_ok_mine)
  then show ?thesis
    using r by (auto simp: chain_ok_def Block_init_def)
qed

theorem chain_integrity_witness:
  "\<exists>oks bc.
     run (Blockchain_init (PyFloat ''1700000000.5''))
       [Admit ''V1'' ''Alice'' ''r1'' (PyFloat ''1700000001.5''),
        Seal (PyFloat ''1700000002.5''),
        Admit ''V2'' ''Bob'' ''r2'' (PyFloat ''1700000003.5''),
        Seal (PyFloat ''1700000004.5'')] = Inr (oks, bc)
     \<and> length (chain bc) = 3
     \<and> previous_hash (chain bc ! 0) = ''0''
     \<and> previous_hash (chain bc ! 1) = hash (chain bc ! 0)
     \<and> previous_hash (chain bc ! 2) = hash (chain bc ! 1)"
  using chain_integrity
    [of "PyFloat ''1700000000.5''"
      "[Admit ''V1'' ''Alice'' ''r1'' (PyFloat ''1700000001.5''),
        Seal (PyFloat ''1700000002.5''),
        Admit ''V2'' ''Bob'' ''r2'' (PyFloat ''1700000003.5''),
        Seal (PyFloat ''1700000004.5'')]"]
  by (simp add: Blockchain_init_def create_genesis_block_def add_transaction_def mine_def
        Block_init_def)

subsection \<open>Tally\<close>

text \<open>
  \<^bold>\<open>C4.\<close> \<^verbatim>\<open>get_results\<close> counts the transactions of the blocks after the genesis block and
  nothing else: \<^verbatim>\<open>add_transaction\<close> does not change it, and \<^verbatim>\<open>mine\<close> raises the count of
  every candidate by the number of pending transactions for that candidate (by 0 for a
  candidate with none).
\<close>

theorem tally_counts_sealed_only:
  "get_results (snd (add_transaction bc v c r now)) = get_results bc
   \<and> results_get (get_results bc) cand =
       length (filter (\<lambda>tx. candidate tx = cand) (concat (map transactions (drop 1 (chain bc)))))
   \<and> (chain bc \<noteq> [] \<longrightarrow>
        (\<exists>ok bc'. mine bc now = Inr (ok, bc')
           \<and> results_get (get_results bc') cand =
               results_get (get_results bc) cand +
               length (filter (\<lambda>tx. candidate tx = cand) (pending_transactions bc))))"
proof -
  have 1: "get_results (snd (add_transaction bc v c r now)) = get_results bc"
    by (simp add: get_results_def)
  have 2: "results_get (get_results bc) cand =
       length (filter (\<lambda>tx. candidate tx = cand) (concat (map transactions (drop 1 (chain bc)))))"
    by (simp only: results_get_get_results get_all_transactions_concat)
  have 3: "\<exists>ok bc'. mine bc now = Inr (ok, bc')
           \<and> results_get (get_results bc') cand =
               results_get (get_results bc) cand +
               length (filter (\<lambda>tx. candidate tx = cand) (pending_transactions bc))"
    if ne: "chain bc \<noteq> []"
  proof -
    obtain ok bc' where m: "mine bc now = Inr (ok, bc')"
      using ne by (cases "pending_transactions bc = []") (simp_all add: mine_Inr)
    show ?thesis
      using m mine_sealed(1) [OF ne m] by (simp add: results_get_get_results)
  qed
  from 1 2 3 show ?thesis by blast
qed

theorem tally_counts_sealed_only_witness:
  "\<exists>ok bc'.
     mine (snd (add_transaction
                 (snd (add_transaction (Blockchain_init (PyFloat ''1700000000.5''))
                        ''V1'' ''Alice'' ''r1'' (PyFloat ''1700000001.5'')))
                 ''V2'' ''Alice'' ''r2'' (PyFloat ''1700000002.5'')))
       (PyFloat ''1700000003.5'') = Inr (ok, bc')
     \<and> results_get (get_results bc') ''Alice'' = 2
     \<and> results_get
         (get_results
           (snd (add_transaction
                  (snd (add_transaction (Blockchain_init (PyFloat ''1700000000.5''))
                         ''V1'' ''Alice'' ''r1'' (PyFloat ''1700000001.5'')))
                  ''V2'' ''Alice'' ''r2'' (PyFloat ''1700000002.5'')))) ''Alice'' = 0"
  using tally_counts_sealed_only
    [of "snd (add_transaction (Blockchain_init (PyFloat ''1700000000.5''))
                        ''V1'' ''Alice'' ''r1'' (PyFloat ''1700000001.5''))"
       "''V2''" "''Alice''" "''r2''" "PyFloat ''1700000003.5''" "''Alice''"]
    tally_counts_sealed_only
    [of "snd (add_transaction
                 (snd (add_transaction (Blockchain_init (PyFloat ''1700000000.5''))
                        ''V1'' ''Alice'' ''r1'' (PyFloat ''1700000001.5'')))
                 ''V2'' ''Alice'' ''r2'' (PyFloat ''1700000002.5''))"
       "''V3''" "''Alice''" "''r3''" "PyFloat ''1700000003.5''" "''Alice''"]
  by (simp add: Blockchain_init_def create_genesis_block_def add_transaction_def mine_def
        get_results_def get_all_transactions_def results_get_def Block_init_def)

subsection \<open>The admitted voters\<close>

text \<open>
  \<^bold>\<open>C10.\<close> In every ledger reached from a freshly constructed one by \<^verbatim>\<open>add_transaction\<close>
  and \<^verbatim>\<open>mine\<close> calls, the set \<^verbatim>\<open>voters\<close> is exactly the set of voter ids of the pending
  transactions together with those of the transactions in the blocks after genesis.
  \<^verbatim>\<open>add_transaction\<close> leaves \<^verbatim>\<open>voters\<close> with the one id added (which was there already when
  the call is refused), and \<^verbatim>\<open>mine\<close> does not touch \<^verbatim>\<open>voters\<close>.
\<close>

theorem voters_are_pending_or_sealed:
  "(\<exists>oks bc. run (Blockchain_init t0) ops = Inr (oks, bc)
       \<and> voters bc =
           voter_id ` set (pending_transactions bc) \<union> voter_id ` set (get_all_transactions bc))
   \<and> voters (snd (add_transaction b v c r now)) = insert v (voters b)
   \<and> (\<forall>ok b'. mine b now = Inr (ok, b') \<longrightarrow> voters b' = voters b)"
proof -
  obtain oks bc where r: "run (Blockchain_init t0) ops = Inr (oks, bc)"
    using run_total [OF Blockchain_init_chain_ne, of t0 ops] by blast
  have "voters_inv bc"
    by (rule run_preserves [OF r, where P = voters_inv])
      (simp_all add: voters_inv_init voters_inv_add voters_inv_mine)
  moreover have "\<forall>ok b'. mine b now = Inr (ok, b') \<longrightarrow> voters b' = voters b"
    by (auto simp: mine_def split: if_splits)
  ultimately show ?thesis
    using r add_transaction_voters [of b v c r now] by (auto simp: voters_inv_def)
qed

theorem voters_are_pending_or_sealed_witness:
  "\<exists>oks bc.
     run (Blockchain_init (PyFloat ''1700000000.5''))
       [Admit ''V1'' ''Alice'' ''r1'' (PyFloat ''1700000001.5''),
        Seal (PyFloat ''1700000002.5''),
        Admit ''V2'' ''Bob'' ''r2'' (PyFloat ''1700000003.5'')] = Inr (oks, bc)
     \<and> voters bc = {''V2'', ''V1''}
     \<and> voter_id ` set (pending_transactions bc) = {''V2''}
     \<and> voter_id ` set (get_all_transactions bc) = {''V1''}"
  using voters_are_pending_or_sealed
    [of "PyFloat ''1700000000.5''"
      "[Admit ''V1'' ''Alice'' ''r1'' (PyFloat ''1700000001.5''),
        Seal (PyFloat ''1700000002.5''),
        Admit ''V2'' ''Bob'' ''r2'' (PyFloat ''1700000003.5'')]"
      "Blockchain_init (PyFloat ''1700000000.5'')" "''V1''" "''Alice''" "''r1''"
      "PyFloat ''1700000001.5''"]
  by (simp add: Blockchain_init_def create_genesis_block_def add_transaction_def mine_def
        get_all_transactions_def Block_init_def)


section \<open>Facts about the interface code\<close>

lemma set_index_tolist: "set (index_tolist P rows) = {i. i < length rows \<and> P (rows ! i)}"
  by (auto simp: index_tolist_def)

lemma set_value_counts:
  "set (value_counts xs) = (\<lambda>x. (x, length (filter (\<lambda>y. y = x) xs))) ` set xs"
  by (simp add: value_counts_def)

lemma filter_key_map: "filter ((\<lambda>y. y = k) \<circ> f) xs = filter (\<lambda>x. f x = k) xs"
  by (simp add: comp_def)

lemma set_duplicate_email_flags:
  "set (duplicate_email_flags reg) =
     {i. i < length reg \<and>
         1 < length (filter (\<lambda>row. email (snd row) = email (snd (reg ! i))) reg)}"
proof -
  have "\<exists>row \<in> set reg. email (snd (reg ! i)) = email (snd row) \<and>
          1 < length (filter (\<lambda>r. email (snd r) = email (snd row)) reg)"
    if "i < length reg" and "1 < length (filter (\<lambda>row. email (snd row) = email (snd (reg ! i))) reg)"
    for i
    using that by (intro bexI [where x = "reg ! i"]) simp_all
  then show ?thesis
    by (auto simp: duplicate_email_flags_def set_value_counts set_index_tolist filter_key_map
          split: if_splits)
qed

lemma set_block_vote_flags:
  "set (block_vote_flags vt) =
     {i. i < length vt \<and>
         3 < length (filter (\<lambda>row. row_domain row = row_domain (vt ! i) \<and>
                                    row_candidate row = row_candidate (vt ! i)) vt)}"
proof -
  have "\<exists>row \<in> set vt. row_domain (vt ! i) = row_domain row \<and>
          row_candidate (vt ! i) = row_candidate row \<and>
          3 < length (filter (\<lambda>r. row_domain r = row_domain row \<and>
                                   row_candidate r = row_candidate row) vt)"
    if "i < length vt"
      and "3 < length (filter (\<lambda>row. row_domain row = row_domain (vt ! i) \<and>
                                      row_candidate row = row_candidate (vt ! i)) vt)"
    for i
    using that by (intro bexI [where x = "vt ! i"]) simp_all
  then show ?thesis
    by (auto simp: block_vote_flags_def set_value_counts set_index_tolist filter_key_map
          split: if_splits)
qed

lemma two_indices_filter:
  assumes "i < length xs" and "j < length xs" and "i \<noteq> j" and "P (xs ! i)" and "P (xs ! j)"
  shows "1 < length (filter P xs)"
proof -
  have "{i, j} \<subseteq> {k. k < length xs \<and> P (xs ! k)}"
    using assms by simp
  then have "card {i, j} \<le> card {k. k < length xs \<and> P (xs ! k)}"
    by (intro card_mono) simp_all
  then show ?thesis
    using assms(3) by (simp add: length_filter_conv_card)
qed

lemma flagged_app2_bound: "i \<in> set (flagged_app2 reg) \<Longrightarrow> i < length reg"
  by (auto simp: flagged_app2_def set_duplicate_email_flags suspicious_domain_flags_def
        short_name_flags_def set_index_tolist)

lemma flagged_df_app2_Inr: "flagged_df_app2 reg = Inr (map (\<lambda>i. reg ! i) (flagged_app2 reg))"
  by (simp add: flagged_df_app2_def loc_def flagged_app2_bound)

lemma foldl_dict_pop: "foldl (\<lambda>d k. dict_pop k d) d ks = filter (\<lambda>kv. fst kv \<notin> set ks) d"
proof (induction ks arbitrary: d)
  case Nil
  then show ?case by simp
next
  case (Cons k ks)
  have "filter (\<lambda>kv. fst kv \<notin> set ks) (dict_pop k d) = filter (\<lambda>kv. fst kv \<notin> set (k # ks)) d"
    by (auto simp: dict_pop_def intro: filter_cong)
  with Cons.IH [of "dict_pop k d"] show ?case by simp
qed

lemma map_of_filter_keys:
  "map_of (filter (\<lambda>kv. fst kv \<notin> K) d) k = (if k \<in> K then None else map_of d k)"
  by (induction d) auto

lemma find_first_unique:
  assumes "x \<in> set xs" and "P x" and "\<forall>y \<in> set xs. P y \<longrightarrow> y = x"
  shows "List.find P xs = Some x"
proof (cases "List.find P xs")
  case None
  then have "\<not> P x"
    using assms(1) by (simp add: find_None_iff)
  then show ?thesis
    using assms(2) by simp
next
  case (Some y)
  then have "y \<in> set xs" and "P y"
    by (auto simp: find_Some_iff)
  then have "y = x"
    using assms(3) by blast
  then show ?thesis
    using Some by simp
qed

lemmas example_defs = ex_session_def ex_session1_def ex_session2_def ex_sealed_def ex_receipt_def
  submit_vote_def generate_receipt_id_def add_transaction_def mine_def Blockchain_init_def
  create_genesis_block_def

text \<open>The string that is hashed for a genesis block made at clock reading 1700000000.5.\<close>

lemma block_string_genesis:
  "block_string (dict_in_init 0 [] (PyFloat ''1700000000.5'') ''0'') =
     ''{'' @ [CHR 0x22] @ ''index'' @ [CHR 0x22] @ '': 0, '' @ [CHR 0x22] @ ''nonce'' @ [CHR 0x22]
     @ '': 0, '' @ [CHR 0x22] @ ''previous_hash'' @ [CHR 0x22] @ '': '' @ [CHR 0x22] @ ''0''
     @ [CHR 0x22] @ '', '' @ [CHR 0x22] @ ''timestamp'' @ [CHR 0x22] @ '': 1700000000.5, ''
     @ [CHR 0x22] @ ''transactions'' @ [CHR 0x22] @ '': []}''"
  by (simp add: block_string_def dict_in_init_def json_str_def json_escape_char_def decimal.simps
        digit_char_def)

text \<open>
  Rule 2 of the fraud tab of \<^verbatim>\<open>app.py\<close> puts into \<^verbatim>\<open>flagged\<close> the row label that every vote
  of a group of more than 3 has in \<^verbatim>\<open>votes_table\<close>.
\<close>

lemma block_vote_labels_flagged:
  assumes "i < length vt"
    and "3 < length (filter (\<lambda>row. row_domain row = row_domain (vt ! i) \<and>
                                    row_candidate row = row_candidate (vt ! i)) vt)"
  shows "i \<in> set (flagged_app reg vt)"
  using assms by (simp add: flagged_app_def set_block_vote_flags)

section \<open>Properties of the interface code and of the block hash\<close>

subsection \<open>The block hash\<close>

text \<open>
  \<^bold>\<open>C5.\<close> The hash stored in a block is the digest of the serialisation of the five
  attributes set before it (index, transactions, timestamp, previous hash, nonce): the
  digest itself is not part of its own input. \<^verbatim>\<open>compute_hash\<close> called on the constructed block
  serialises \<^verbatim>\<open>self.__dict__\<close> again, which by then has the key \<^verbatim>\<open>hash\<close> as well: its input is
  the old input with the item for \<^verbatim>\<open>hash\<close> put in front, a different string for every block.
  So the recomputed digest is the digest of another message than the stored one, on an
  unchanged block too.
\<close>

theorem compute_hash_reads_hash_field:
  "hash (Block_init idx txs ts prev) =
     sha256_hex (encode (block_string (dict_in_init idx txs ts prev)))
   \<and> compute_hash (Block_init idx txs ts prev) =
       sha256_hex (encode (block_string (block_dict (Block_init idx txs ts prev))))
   \<and> block_string (block_dict (Block_init idx txs ts prev)) =
       [CHR ''{''] @ json_str ''hash'' @ '': '' @ json_str (hash (Block_init idx txs ts prev)) @ '', ''
       @ tl (block_string (dict_in_init idx txs ts prev))
   \<and> block_string (block_dict (Block_init idx txs ts prev)) \<noteq>
       block_string (dict_in_init idx txs ts prev)"
  by (simp add: Block_init_def compute_hash_def hash_of_dict_def block_string_def block_dict_def
        dict_in_init_def json_str_def json_escape_char_def)

subsection \<open>Receipt look-up\<close>

text \<open>
  \<^bold>\<open>C6\<close> (as stated, refuted). Two voters get the same receipt id from the Submit handler
  (the digest input is the concatenation of voter id, candidate and clock reading, and
  \<^verbatim>\<open>V1\<close> + \<^verbatim>\<open>1Bob\<close> is \<^verbatim>\<open>V11\<close> + \<^verbatim>\<open>Bob\<close>); both votes are admitted and sealed; the look-up of the
  receipt of the second voter returns the transaction of the first.
\<close>

theorem find_receipt_counterexample:
  "submit_vote ex_session ''V1'' ''1Bob'' (PyFloat ''1700000100.25'') (PyFloat ''1700000100.5'')
     ''2023-11-14 22:15:00'' = Inr (Some ex_receipt, ex_session1)
   \<and> submit_vote ex_session1 ''V11'' ''Bob'' (PyFloat ''1700000100.25'') (PyFloat ''1700000100.75'')
       ''2023-11-14 22:15:00'' = Inr (Some ex_receipt, ex_session2)
   \<and> mine (blockchain_st ex_session2) (PyFloat ''1700000200.5'') = Inr (True, ex_sealed)
   \<and> get_all_transactions ex_sealed =
       [\<lparr>voter_id = ''V1'', candidate = ''1Bob'', receipt_id = ex_receipt,
         tx_timestamp = PyFloat ''1700000100.5''\<rparr>,
        \<lparr>voter_id = ''V11'', candidate = ''Bob'', receipt_id = ex_receipt,
         tx_timestamp = PyFloat ''1700000100.75''\<rparr>]
   \<and> find_receipt ex_sealed (votes_table ex_session2) ex_receipt \<noteq>
       BlockchainVote \<lparr>voter_id = ''V11'', candidate = ''Bob'', receipt_id = ex_receipt,
                        tx_timestamp = PyFloat ''1700000100.75''\<rparr>
   \<and> find_receipt ex_sealed (votes_table ex_session2) ex_receipt =
       BlockchainVote \<lparr>voter_id = ''V1'', candidate = ''1Bob'', receipt_id = ex_receipt,
                        tx_timestamp = PyFloat ''1700000100.5''\<rparr>
   \<and> vote_validator ex_sealed ex_receipt =
       Some \<lparr>voter_id = ''V1'', candidate = ''1Bob'', receipt_id = ex_receipt,
              tx_timestamp = PyFloat ''1700000100.5''\<rparr>"
  by (simp add: example_defs get_all_transactions_def find_receipt_def vote_validator_def
        Block_init_def)

text \<open>
  \<^bold>\<open>C6\<close> (amended). The look-up returns the first sealed transaction, in block order and
  then admission order, whose receipt id is the one asked for. So for a sealed transaction
  it returns exactly that transaction provided no other sealed transaction carries the same
  receipt id. On a miss among the sealed transactions \<^verbatim>\<open>app2.py\<close> searches the rows that a QR
  vote wrote to \<^verbatim>\<open>votes_table\<close>; a receipt id that matches no sealed transaction and no such row
  is reported as not found.
\<close>

theorem find_receipt_first_match:
  "(tx \<in> set (get_all_transactions bc)
      \<and> (\<forall>tx' \<in> set (get_all_transactions bc). receipt_id tx' = receipt_id tx \<longrightarrow> tx' = tx)
     \<longrightarrow> find_receipt bc vt (receipt_id tx) = BlockchainVote tx
         \<and> vote_validator bc (receipt_id tx) = Some tx)
   \<and> find_receipt bc vt r =
       (case List.find (\<lambda>tx. receipt_id tx = r) (get_all_transactions bc) of
          Some tx \<Rightarrow> BlockchainVote tx
        | None \<Rightarrow>
            (case List.find (\<lambda>row. row_receipt row = r \<and> row_method row = ''QR'') vt of
               Some row \<Rightarrow> QRVote row
             | None \<Rightarrow> NotFound))
   \<and> ((\<forall>tx \<in> set (get_all_transactions bc). receipt_id tx \<noteq> r)
        \<and> (\<forall>row \<in> set vt. \<not> (row_receipt row = r \<and> row_method row = ''QR''))
       \<longrightarrow> find_receipt bc vt r = NotFound \<and> vote_validator bc r = None)"
proof -
  have 1: "find_receipt bc vt (receipt_id tx) = BlockchainVote tx
         \<and> vote_validator bc (receipt_id tx) = Some tx"
    if "tx \<in> set (get_all_transactions bc)"
      and "\<forall>tx' \<in> set (get_all_transactions bc). receipt_id tx' = receipt_id tx \<longrightarrow> tx' = tx"
  proof -
    have "List.find (\<lambda>t. receipt_id t = receipt_id tx) (get_all_transactions bc) = Some tx"
      by (rule find_first_unique) (use that in auto)
    then show ?thesis
      by (simp add: find_receipt_def vote_validator_def)
  qed
  have 3: "find_receipt bc vt r = NotFound \<and> vote_validator bc r = None"
    if "\<forall>tx \<in> set (get_all_transactions bc). receipt_id tx \<noteq> r"
      and "\<forall>row \<in> set vt. \<not> (row_receipt row = r \<and> row_method row = ''QR'')"
  proof -
    have "List.find (\<lambda>tx. receipt_id tx = r) (get_all_transactions bc) = None"
      using that(1) by (simp add: find_None_iff)
    moreover have "List.find (\<lambda>row. row_receipt row = r \<and> row_method row = ''QR'') vt = None"
      using that(2) by (simp add: find_None_iff)
    ultimately show ?thesis
      by (simp add: find_receipt_def vote_validator_def)
  qed
  from 1 3 show ?thesis
    by (simp add: find_receipt_def)
qed

theorem find_receipt_first_match_witness:
  "find_receipt
     (snd (projr (mine (snd (add_transaction (Blockchain_init (PyFloat ''1700000000.5''))
                               ''V1'' ''Alice'' ''0123456789abcdef'' (PyFloat ''1700000001.5'')))
                   (PyFloat ''1700000002.5''))))
     [] ''0123456789abcdef''
     = BlockchainVote \<lparr>voter_id = ''V1'', candidate = ''Alice'', receipt_id = ''0123456789abcdef'',
                        tx_timestamp = PyFloat ''1700000001.5''\<rparr>
   \<and> find_receipt
     (snd (projr (mine (snd (add_transaction (Blockchain_init (PyFloat ''1700000000.5''))
                               ''V1'' ''Alice'' ''0123456789abcdef'' (PyFloat ''1700000001.5'')))
                   (PyFloat ''1700000002.5''))))
     [] ''ffffffffffffffff'' = NotFound"
  using
    find_receipt_first_match
      [of "\<lparr>voter_id = ''V1'', candidate = ''Alice'', receipt_id = ''0123456789abcdef'',
            tx_timestamp = PyFloat ''1700000001.5''\<rparr>"
          "snd (projr (mine (snd (add_transaction (Blockchain_init (PyFloat ''1700000000.5''))
                               ''V1'' ''Alice'' ''0123456789abcdef'' (PyFloat ''1700000001.5'')))
                   (PyFloat ''1700000002.5'')))"
          "[]" "''ffffffffffffffff''"]
  by (simp add: Blockchain_init_def create_genesis_block_def add_transaction_def mine_def
        get_all_transactions_def Block_init_def)

subsection \<open>Fraud rules\<close>

text \<open>
  \<^bold>\<open>C7.\<close> Block voting (\<^verbatim>\<open>app.py\<close>). Five votes from one domain for one candidate are a
  group of more than 3, and rule 2 collects the row labels 0 to 4 that these votes have in
  \<^verbatim>\<open>votes_table\<close>. The set they go into is the one that holds row labels of \<^verbatim>\<open>voters_df\<close> from
  rule 1, and its only use is \<^verbatim>\<open>voters_df.loc[flagged]\<close>, which reads every label as a row of
  the registry. In the example the five block voters are the registrations 5 to 9: the scan
  lists the registrations 0 to 4, none of whom has voted, and none of the five votes of the
  group nor any of their voters is in what it produces.
\<close>

theorem block_voters_not_listed:
  "map row_voter_id ex_votes = [''V5'', ''V6'', ''V7'', ''V8'', ''V9'']
   \<and> map (\<lambda>row. (row_domain row, row_candidate row)) ex_votes =
       [(''acme.org'', ''Alice''), (''acme.org'', ''Alice''), (''acme.org'', ''Alice''),
        (''acme.org'', ''Alice''), (''acme.org'', ''Alice'')]
   \<and> flagged_app ex_registry ex_votes = [0, 1, 2, 3, 4]
   \<and> flagged_df_app ex_registry ex_votes = Inr (take 5 ex_registry)
   \<and> map fst (take 5 ex_registry) = [''V0'', ''V1'', ''V2'', ''V3'', ''V4'']
   \<and> set (map fst (take 5 ex_registry)) \<inter> set (map row_voter_id ex_votes) = {}"
  by (simp add: ex_registry_def ex_votes_def flagged_df_app_def loc_def flagged_app_def
        block_vote_flags_def value_counts_def index_tolist_def email_domain_flags_def endswith_def
        lower_def lower_char_def upt_rec)

text \<open>
  \<^bold>\<open>C8.\<close> Duplicate email (\<^verbatim>\<open>app2.py\<close> and \<^verbatim>\<open>prototype.py\<close>). If two different registered voters
  have the same email address, both are in the flagged set of the scan, and both their rows
  are in the table of flagged registrations; so every registration that shares its email
  with another one is flagged.
\<close>

theorem duplicate_emails_flagged:
  assumes "i < length reg" and "j < length reg" and "i \<noteq> j"
    and "email (snd (reg ! i)) = email (snd (reg ! j))"
  shows "{i, j} \<subseteq> set (flagged_app2 reg)
       \<and> {i, j} \<subseteq> set (flagged_prototype reg)
       \<and> (\<exists>rows. flagged_df_app2 reg = Inr rows \<and> {reg ! i, reg ! j} \<subseteq> set rows)"
proof -
  have i: "1 < length (filter (\<lambda>row. email (snd row) = email (snd (reg ! i))) reg)"
    by (rule two_indices_filter [OF assms(1,2,3)]) (simp_all add: assms(4))
  have j: "1 < length (filter (\<lambda>row. email (snd row) = email (snd (reg ! j))) reg)"
    using i assms(4) by simp
  have d: "{i, j} \<subseteq> set (duplicate_email_flags reg)"
    using i j assms(1,2) by (simp add: set_duplicate_email_flags)
  then have a: "{i, j} \<subseteq> set (flagged_app2 reg)" and p: "{i, j} \<subseteq> set (flagged_prototype reg)"
    by (auto simp: flagged_app2_def flagged_prototype_def)
  from a have "{reg ! i, reg ! j} \<subseteq> set (map (\<lambda>i. reg ! i) (flagged_app2 reg))"
    by auto
  with a p show ?thesis
    by (simp add: flagged_df_app2_Inr)
qed

theorem duplicate_emails_flagged_witness:
  "{0, 1} \<subseteq> set (flagged_app2
                     [(''V1'', \<lparr>name = ''Jane Doe'', email = ''jane@acme.org'', domain = ''acme.org''\<rparr>),
                      (''V2'', \<lparr>name = ''John Roe'', email = ''jane@acme.org'', domain = ''acme.org''\<rparr>)])
   \<and> {0, 1} \<subseteq> set (flagged_prototype
                     [(''V1'', \<lparr>name = ''Jane Doe'', email = ''jane@acme.org'', domain = ''acme.org''\<rparr>),
                      (''V2'', \<lparr>name = ''John Roe'', email = ''jane@acme.org'', domain = ''acme.org''\<rparr>)])"
  using duplicate_emails_flagged
    [of 0 "[(''V1'', \<lparr>name = ''Jane Doe'', email = ''jane@acme.org'', domain = ''acme.org''\<rparr>),
            (''V2'', \<lparr>name = ''John Roe'', email = ''jane@acme.org'', domain = ''acme.org''\<rparr>)]" 1]
  by simp

subsection \<open>Removing flagged registrations\<close>

text \<open>
  \<^bold>\<open>C9.\<close> Removing a list of voter ids deletes exactly the registry entries with these ids:
  none of the ids is a key afterwards, every other entry is as before, and the ledger
  (chain, sealed and pending transactions, admitted voters) and the rest of the session are
  untouched. The Remove button is this operation on the ids of the flagged registrations.
\<close>

theorem remove_flagged_only_registry:
  "registered_voters (remove_flagged ids st) =
     filter (\<lambda>kv. fst kv \<notin> set ids) (registered_voters st)
   \<and> (\<forall>k \<in> set ids. k \<notin> fst ` set (registered_voters (remove_flagged ids st)))
   \<and> (\<forall>k. k \<notin> set ids \<longrightarrow>
         map_of (registered_voters (remove_flagged ids st)) k = map_of (registered_voters st) k)
   \<and> blockchain_st (remove_flagged ids st) = blockchain_st st
   \<and> votes_table (remove_flagged ids st) = votes_table st
   \<and> candidate_list (remove_flagged ids st) = candidate_list st
   \<and> qr_vote_counts (remove_flagged ids st) = qr_vote_counts st
   \<and> qr_voters (remove_flagged ids st) = qr_voters st
   \<and> remove_flagged_button st =
       Inr (remove_flagged
              (map (\<lambda>i. fst (registered_voters st ! i)) (flagged_app2 (registered_voters st))) st)"
  by (auto simp: remove_flagged_def foldl_dict_pop map_of_filter_keys remove_flagged_button_def
        flagged_df_app2_Inr comp_def)

theorem remove_flagged_only_registry_witness:
  "registered_voters (remove_flagged [''V1''] ex_session) =
     [(''V11'', \<lparr>name = ''John Roe'', email = ''john@acme.org'', domain = ''acme.org''\<rparr>)]
   \<and> ''V1'' \<notin> fst ` set (registered_voters (remove_flagged [''V1''] ex_session))
   \<and> map_of (registered_voters (remove_flagged [''V1''] ex_session)) ''V11'' =
       map_of (registered_voters ex_session) ''V11''
   \<and> blockchain_st (remove_flagged [''V1''] ex_session) = blockchain_st ex_session"
  using remove_flagged_only_registry [of "[''V1'']" ex_session]
  by (simp add: ex_session_def)

end
